theory Spec2Isabelle
  imports Complex_Main
begin

section \<open>Points, vectors and curves of the host model\<close>

text \<open>
  The library works on the object model of the CAD host.  A point or vector is the host
  class \<open>XYZ\<close>; Python floats are read as real numbers, so rounding is outside this
  development.  The sign of a floating-point zero is modelled where the code reads it (in
  the angle of the daylight zone).
\<close>

datatype XYZ = XYZ (X: real) (Y: real) (Z: real)

definition xyz_add :: "XYZ \<Rightarrow> XYZ \<Rightarrow> XYZ" where
  "xyz_add a b = XYZ (X a + X b) (Y a + Y b) (Z a + Z b)"

definition xyz_sub :: "XYZ \<Rightarrow> XYZ \<Rightarrow> XYZ" where
  "xyz_sub a b = XYZ (X a - X b) (Y a - Y b) (Z a - Z b)"

definition xyz_mul :: "XYZ \<Rightarrow> real \<Rightarrow> XYZ" where
  "xyz_mul a s = XYZ (X a * s) (Y a * s) (Z a * s)"

definition xyz_neg :: "XYZ \<Rightarrow> XYZ" where
  "xyz_neg a = XYZ (- X a) (- Y a) (- Z a)"

definition BasisZ :: XYZ where
  "BasisZ = XYZ 0 0 1"

definition CrossProduct :: "XYZ \<Rightarrow> XYZ \<Rightarrow> XYZ" where
  "CrossProduct a b =
     XYZ (Y a * Z b - Z a * Y b) (Z a * X b - X a * Z b) (X a * Y b - Y a * X b)"

definition GetLength :: "XYZ \<Rightarrow> real" where
  "GetLength a = sqrt (X a * X a + Y a * Y a + Z a * Z a)"

text \<open>\<open>XYZ.Normalize\<close>: the unit vector of the same direction, the zero vector for zero.\<close>

definition Normalize :: "XYZ \<Rightarrow> XYZ" where
  "Normalize a = (if GetLength a = 0 then XYZ 0 0 0 else xyz_mul a (1 / GetLength a))"

text \<open>
  A curve as the functions read it: its two end points (\<open>GetEndPoint(0)\<close>,
  \<open>GetEndPoint(1)\<close>), its two end parameters (\<open>GetEndParameter(0)\<close>,
  \<open>GetEndParameter(1)\<close>), its \<open>Length\<close> and whether it is bound.
\<close>

record Curve =
  EndPoint0 :: XYZ
  EndPoint1 :: XYZ
  EndParameter0 :: real
  EndParameter1 :: real
  Length :: real
  IsBound :: bool

datatype BoundarySegment = BoundarySegment (GetCurve: Curve)

text \<open>
  The geometry kernel of the host is not part of the repository; the functions below take
  its operations as a parameter.
  \<^item> \<open>CreateBound p q\<close> is \<open>Line.CreateBound(p, q)\<close>: the new line, or \<open>None\<close> when the
    host refuses the end points with \<open>ArgumentsInconsistentException\<close> (the exception
    \<open>remove_single_imperfection_from_boundary\<close> catches).
  \<^item> \<open>Intersect a b\<close> is \<open>a.Intersect(b, results)\<close>: \<open>Some p\<close> when the comparison result
    is \<open>SetComparisonResult.Overlap\<close>, with \<open>p = results.Item[0].XYZPoint\<close>, and \<open>None\<close>
    for every other comparison result.
  \<^item> \<open>Append loop c\<close> is \<open>loop.Append(c)\<close> on a \<open>CurveLoop\<close>: the extended loop, or
    \<open>None\<close> when the host raises.
  \<^item> \<open>units_to_internal\<close> is the unit conversion of \<open>CMRPUnit\<close>, which asks the
    document for its display unit.
\<close>

record kernel =
  CreateBound :: "XYZ \<Rightarrow> XYZ \<Rightarrow> Curve option"
  Intersect :: "Curve \<Rightarrow> Curve \<Rightarrow> XYZ option"
  Append :: "Curve list \<Rightarrow> Curve \<Rightarrow> Curve list option"
  units_to_internal :: "real \<Rightarrow> real"

datatype exn =
    ArgumentsInconsistentException
  | ArgumentException
  | ValueError
  | MissingSettingsError string
  | MissingTemplateError string

section \<open>Room boundaries: surface area and loop selection\<close>

text \<open>\<open>calculate_surface_area_of_boundary\<close> of \<open>CMRP.py\<close>: the loop over the curves.\<close>

fun surface_area_sum :: "Curve list \<Rightarrow> real \<Rightarrow> real" where
  "surface_area_sum [] surface_area = surface_area"
| "surface_area_sum (curve # boundary) surface_area =
     (if IsBound curve
      then surface_area_sum boundary
             (surface_area + Length curve * EndParameter0 curve * EndParameter1 curve)
      else surface_area_sum boundary surface_area)"

definition calculate_surface_area_of_boundary :: "Curve list \<Rightarrow> real" where
  "calculate_surface_area_of_boundary boundary = \<bar>surface_area_sum boundary 0\<bar> / 2"

text \<open>
  \<open>get_largest_curveloop_from_room_boundary\<close> of \<open>CMRP_Daylight.py\<close>.  The loop carries
  \<open>result\<close> and \<open>largest_area\<close>; the source assigns \<open>result\<close> in the loop and never
  assigns \<open>largest_area\<close>, so the model passes it on unchanged.
\<close>

fun largest_curveloop_loop ::
  "BoundarySegment list list \<Rightarrow> Curve list option \<Rightarrow> real \<Rightarrow> Curve list option" where
  "largest_curveloop_loop [] result largest_area = result"
| "largest_curveloop_loop (segments # rest) result largest_area =
     (let temp = map GetCurve segments;
          surface_area = calculate_surface_area_of_boundary temp
      in if surface_area > largest_area
         then largest_curveloop_loop rest (Some temp) largest_area
         else largest_curveloop_loop rest result largest_area)"

definition get_largest_curveloop_from_room_boundary ::
  "BoundarySegment list list \<Rightarrow> Curve list option" where
  "get_largest_curveloop_from_room_boundary room_boundary_segments =
     (case room_boundary_segments of
        [segments] \<Rightarrow> Some (map GetCurve segments)
      | _ \<Rightarrow> largest_curveloop_loop room_boundary_segments None 0)"

section \<open>Windows and their size\<close>

text \<open>
  A window as the functions read it: its location point, its facing orientation, and the
  numeric parameters of the instance and of its type (\<open>window.Symbol\<close>), each a lookup
  from the parameter name to the value \<open>AsDouble()\<close> returns, \<open>None\<close> when the element
  has no parameter of that name.
\<close>

record window =
  Location_Point :: XYZ
  FacingOrientation :: XYZ
  LookupParameter :: "string \<Rightarrow> real option"
  Symbol_LookupParameter :: "string \<Rightarrow> real option"

text \<open>
  \<open>get_size_from_window\<close> of \<open>CMRP.py\<close>.  Each parameter is looked up on the
  window and, when the window has none of that name, on its type.  A parameter that is
  missing on both makes \<open>AsDouble\<close> raise \<open>AttributeError\<close>, which the function
  turns into \<open>(None, None)\<close>.
\<close>

definition lookup_size_parameter :: "window \<Rightarrow> string \<Rightarrow> real option" where
  "lookup_size_parameter w name =
     (case LookupParameter w name of
        None \<Rightarrow> Symbol_LookupParameter w name
      | Some v \<Rightarrow> Some v)"

definition get_size_from_window ::
  "window \<Rightarrow> string \<Rightarrow> string \<Rightarrow> real option \<times> real option" where
  "get_size_from_window w param_window_height param_window_width =
     (let param_height = lookup_size_parameter w param_window_height;
          param_width = lookup_size_parameter w param_window_width
      in case param_height of
           None \<Rightarrow> (None, None)
         | Some height \<Rightarrow>
             (case param_width of
                None \<Rightarrow> (None, None)
              | Some width \<Rightarrow>
                  if height = 0 \<or> width = 0 then (None, None)
                  else (Some height, Some width)))"

section \<open>Orientation of a window against a room boundary\<close>

text \<open>\<open>set_z_coordinate_of_line\<close> of \<open>CMRPCalculations.py\<close>.\<close>

definition set_z_coordinate_of_line :: "kernel \<Rightarrow> Curve \<Rightarrow> real \<Rightarrow> Curve option" where
  "set_z_coordinate_of_line K line new_z_coordinate =
     (let start = EndPoint0 line; end_point = EndPoint1 line
      in CreateBound K (XYZ (X start) (Y start) new_z_coordinate)
                       (XYZ (X end_point) (Y end_point) new_z_coordinate))"

text \<open>
  The line shot from the window along an orientation, flattened to \<open>z = 0\<close>: the
  construction of \<open>facing_line\<close> and \<open>reverse_line\<close> in
  \<open>get_correct_facing_orientation\<close>.
\<close>

definition shoot_line :: "kernel \<Rightarrow> XYZ \<Rightarrow> XYZ \<Rightarrow> Curve option" where
  "shoot_line K location_point orientation =
     (case CreateBound K location_point
             (xyz_add location_point (xyz_mul orientation (units_to_internal K 1000))) of
        None \<Rightarrow> None
      | Some line \<Rightarrow> set_z_coordinate_of_line K line 0)"

text \<open>
  The loop of \<open>get_correct_facing_orientation\<close> over the curves of the room boundary: on
  each curve the reverse line is tried, then the facing line, and the first intersection
  returns.
\<close>

fun orientation_loop ::
  "kernel \<Rightarrow> Curve list \<Rightarrow> Curve \<Rightarrow> Curve \<Rightarrow> XYZ \<Rightarrow> XYZ \<Rightarrow> exn + (XYZ option \<times> XYZ option)" where
  "orientation_loop K [] facing_line reverse_line facing_orientation reverse_orientation =
     Inr (None, None)"
| "orientation_loop K (curve # room_boundary) facing_line reverse_line
       facing_orientation reverse_orientation =
     (case set_z_coordinate_of_line K curve 0 of
        None \<Rightarrow> Inl ArgumentsInconsistentException
      | Some flat \<Rightarrow>
          (case Intersect K flat reverse_line of
             Some p \<Rightarrow>
               Inr (Some reverse_orientation, Some (XYZ (X p) (Y p) (Z (EndPoint0 curve))))
           | None \<Rightarrow>
               (case set_z_coordinate_of_line K curve 0 of
                  None \<Rightarrow> Inl ArgumentsInconsistentException
                | Some flat2 \<Rightarrow>
                    (case Intersect K flat2 facing_line of
                       Some p \<Rightarrow>
                         Inr (Some facing_orientation,
                              Some (XYZ (X p) (Y p) (Z (EndPoint0 curve))))
                     | None \<Rightarrow>
                         orientation_loop K room_boundary facing_line reverse_line
                           facing_orientation reverse_orientation))))"

definition get_correct_facing_orientation ::
  "kernel \<Rightarrow> window \<Rightarrow> Curve list \<Rightarrow> exn + (XYZ option \<times> XYZ option)" where
  "get_correct_facing_orientation K w room_boundary =
     (let location_point = Location_Point w;
          facing_orientation = FacingOrientation w;
          reverse_orientation = xyz_neg facing_orientation
      in case shoot_line K location_point facing_orientation of
           None \<Rightarrow> Inl ArgumentsInconsistentException
         | Some facing_line \<Rightarrow>
             (case shoot_line K location_point reverse_orientation of
                None \<Rightarrow> Inl ArgumentsInconsistentException
              | Some reverse_line \<Rightarrow>
                  orientation_loop K room_boundary facing_line reverse_line
                    facing_orientation reverse_orientation))"

text \<open>
  Whether a test line meets a boundary curve, as the loop decides it: the curve is
  flattened and the host reports an overlap.
\<close>

definition ray_hits :: "kernel \<Rightarrow> Curve \<Rightarrow> Curve \<Rightarrow> bool" where
  "ray_hits K ray curve =
     (case set_z_coordinate_of_line K curve 0 of
        None \<Rightarrow> False
      | Some flat \<Rightarrow> Intersect K flat ray \<noteq> None)"

section \<open>The daylight zone of a window\<close>

text \<open>
  \<open>rotate_z\<close> of \<open>CMRPCalculations.py\<close>: the host's rotation about the axis
  \<open>(0, 0, 1)\<close> through the origin, applied to a point.
\<close>

definition rotate_z :: "XYZ \<Rightarrow> real \<Rightarrow> XYZ" where
  "rotate_z point angle =
     XYZ (X point * cos angle - Y point * sin angle)
         (X point * sin angle + Y point * cos angle)
         (Z point)"

text \<open>
  The angle of \<open>calculate_full_daylight_zone\<close>.  \<open>math.copysign(1.0, x)\<close> reads the sign
  bit of the float \<open>x\<close>: it is \<open>-1\<close> for a negative \<open>x\<close> and for the float \<open>-0.0\<close>, and
  \<open>1\<close> otherwise.  A real number has one zero only, so the flag \<open>negative_zero\<close> goes
  with the facing orientation: it says that the float \<open>facing_orientation.X\<close> is \<open>-0.0\<close>,
  as it is when \<open>get_correct_facing_orientation\<close> returns the negation of an orientation
  whose \<open>X\<close> is \<open>0.0\<close>; it is not read when \<open>X\<close> is not zero.  \<open>math.acos\<close> raises
  \<open>ValueError\<close> outside \<open>[-1, 1]\<close>.
\<close>

definition copysign_one :: "bool \<Rightarrow> real \<Rightarrow> real" where
  "copysign_one negative_zero x = (if x < 0 \<or> (x = 0 \<and> negative_zero) then - 1 else 1)"

definition daylight_angle :: "XYZ \<Rightarrow> bool \<Rightarrow> exn + real" where
  "daylight_angle facing_orientation negative_zero =
     (if Y facing_orientation < - 1 \<or> 1 < Y facing_orientation then Inl ValueError
      else Inr (- copysign_one negative_zero (X facing_orientation)
                  * arccos (Y facing_orientation) + pi))"

text \<open>
  The four corners of the zone: built at the origin, rotated, and moved to the
  intersection point at the elevation of the window.
\<close>

definition daylight_zone_points ::
  "real \<Rightarrow> real \<Rightarrow> real \<Rightarrow> XYZ \<Rightarrow> XYZ \<Rightarrow> XYZ \<times> XYZ \<times> XYZ \<times> XYZ" where
  "daylight_zone_points height width angle intersection_point location =
     (let p1 = XYZ (- width / 2) 0 0;
          p2 = XYZ (width / 2) 0 0;
          p3 = XYZ (height + width / 2) (- height) 0;
          p4 = XYZ (- height - width / 2) (- height) 0;
          new_location = XYZ (X intersection_point) (Y intersection_point) (Z location)
      in (xyz_add (rotate_z p1 angle) new_location,
          xyz_add (rotate_z p2 angle) new_location,
          xyz_add (rotate_z p3 angle) new_location,
          xyz_add (rotate_z p4 angle) new_location))"

text \<open>\<open>loop.Append(Line.CreateBound(a, b))\<close>, with both ways it can raise.\<close>

definition append_line :: "kernel \<Rightarrow> Curve list \<Rightarrow> XYZ \<Rightarrow> XYZ \<Rightarrow> exn + Curve list" where
  "append_line K loop a b =
     (case CreateBound K a b of
        None \<Rightarrow> Inl ArgumentsInconsistentException
      | Some line \<Rightarrow>
          (case Append K loop line of
             None \<Rightarrow> Inl ArgumentException
           | Some loop' \<Rightarrow> Inr loop'))"

definition daylight_zone_loop :: "kernel \<Rightarrow> XYZ \<times> XYZ \<times> XYZ \<times> XYZ \<Rightarrow> exn + Curve list" where
  "daylight_zone_loop K ps =
     (case ps of (p1, p2, p3, p4) \<Rightarrow>
        (case append_line K [] p1 p2 of
           Inl e \<Rightarrow> Inl e
         | Inr l1 \<Rightarrow>
             (case append_line K l1 p2 p3 of
                Inl e \<Rightarrow> Inl e
              | Inr l2 \<Rightarrow>
                  (case append_line K l2 p3 p4 of
                     Inl e \<Rightarrow> Inl e
                   | Inr l3 \<Rightarrow> append_line K l3 p4 p1))))"

text \<open>
  \<open>calculate_full_daylight_zone\<close> of \<open>CMRP_Daylight.py\<close>; \<open>Inr None\<close> is the return
  value \<open>None\<close>.
\<close>

definition calculate_full_daylight_zone ::
  "kernel \<Rightarrow> window \<Rightarrow> XYZ \<Rightarrow> bool \<Rightarrow> XYZ \<Rightarrow> string \<Rightarrow> string
     \<Rightarrow> exn + Curve list option" where
  "calculate_full_daylight_zone K w facing_orientation negative_zero intersection_point
       param_window_height param_window_width =
     (case get_size_from_window w param_window_height param_window_width of
        (Some height, Some width) \<Rightarrow>
          (case daylight_angle facing_orientation negative_zero of
             Inl e \<Rightarrow> Inl e
           | Inr angle \<Rightarrow>
               (case daylight_zone_loop K
                       (daylight_zone_points height width angle intersection_point
                          (Location_Point w)) of
                  Inl e \<Rightarrow> Inl e
                | Inr daylight_zone \<Rightarrow> Inr (Some daylight_zone)))
      | _ \<Rightarrow> Inr None)"


section \<open>Removing imperfections from a room boundary\<close>

text \<open>
  The two nested loops of \<open>remove_single_imperfection_from_boundary\<close> of \<open>CMRP.py\<close>, up
  to the first pair of curves the host reports as overlapping: the inner loop over
  \<open>intersect_index\<close>, and the outer loop over \<open>current_index\<close>.
\<close>

fun scan_intersect_index ::
  "kernel \<Rightarrow> Curve list \<Rightarrow> nat \<Rightarrow> nat list \<Rightarrow> (nat \<times> XYZ) option" where
  "scan_intersect_index K room_boundary current_index [] = None"
| "scan_intersect_index K room_boundary current_index (intersect_index # rest) =
     (if current_index = 0 \<and> intersect_index = length room_boundary - 1
      then scan_intersect_index K room_boundary current_index rest
      else (case Intersect K (room_boundary ! current_index) (room_boundary ! intersect_index) of
              None \<Rightarrow> scan_intersect_index K room_boundary current_index rest
            | Some p \<Rightarrow> Some (intersect_index, p)))"

fun scan_current_index ::
  "kernel \<Rightarrow> Curve list \<Rightarrow> nat list \<Rightarrow> (nat \<times> nat \<times> XYZ) option" where
  "scan_current_index K room_boundary [] = None"
| "scan_current_index K room_boundary (current_index # rest) =
     (case scan_intersect_index K room_boundary current_index
             [current_index + 2 ..< length room_boundary] of
        Some (intersect_index, p) \<Rightarrow> Some (current_index, intersect_index, p)
      | None \<Rightarrow> scan_current_index K room_boundary rest)"

definition first_intersection :: "kernel \<Rightarrow> Curve list \<Rightarrow> (nat \<times> nat \<times> XYZ) option" where
  "first_intersection K room_boundary =
     scan_current_index K room_boundary [0 ..< length room_boundary]"

text \<open>
  The repair at a found pair: situation 1 is built outside the \<open>try\<close>, so a line the
  host refuses there raises; situation 2 is built inside it, and a refused line returns
  situation 1.
\<close>

definition repair_at_intersection ::
  "kernel \<Rightarrow> Curve list \<Rightarrow> nat \<Rightarrow> nat \<Rightarrow> XYZ \<Rightarrow> exn + Curve list" where
  "repair_at_intersection K room_boundary current_index intersect_index intersection_point =
     (case CreateBound K (EndPoint0 (room_boundary ! current_index)) intersection_point of
        None \<Rightarrow> Inl ArgumentsInconsistentException
      | Some s1a \<Rightarrow>
     (case CreateBound K intersection_point (EndPoint1 (room_boundary ! intersect_index)) of
        None \<Rightarrow> Inl ArgumentsInconsistentException
      | Some s1b \<Rightarrow>
     (let boundary_situation_1 =
            take current_index room_boundary @ [s1a, s1b]
              @ drop (intersect_index + 1) room_boundary
      in case CreateBound K (EndPoint0 (room_boundary ! intersect_index)) intersection_point of
           None \<Rightarrow> Inr boundary_situation_1
         | Some s2a \<Rightarrow>
        (case CreateBound K intersection_point (EndPoint1 (room_boundary ! current_index)) of
           None \<Rightarrow> Inr boundary_situation_1
         | Some s2b \<Rightarrow>
        (let boundary_situation_2 =
               drop (current_index + 1) (take intersect_index room_boundary) @ [s2a, s2b]
         in if calculate_surface_area_of_boundary boundary_situation_1
                 > calculate_surface_area_of_boundary boundary_situation_2
            then Inr boundary_situation_1
            else Inr boundary_situation_2)))))"

text \<open>The loop with its first curve moved to the end: \<open>room_boundary[1:] + [room_boundary[0]]\<close>.\<close>

definition move_first_to_end :: "Curve list \<Rightarrow> Curve list" where
  "move_first_to_end room_boundary = drop 1 room_boundary @ take 1 room_boundary"

function remove_single_imperfection_from_boundary ::
  "kernel \<Rightarrow> Curve list \<Rightarrow> int \<Rightarrow> exn + Curve list" where
  "remove_single_imperfection_from_boundary K room_boundary nr_of_recursive =
     (case first_intersection K room_boundary of
        None \<Rightarrow> Inr room_boundary
      | Some (current_index, intersect_index, intersection_point) \<Rightarrow>
          if current_index = 0 \<and> nr_of_recursive < 4
          then remove_single_imperfection_from_boundary K
                 (move_first_to_end room_boundary) (nr_of_recursive + 1)
          else repair_at_intersection K room_boundary current_index intersect_index
                 intersection_point)"
  by pat_completeness auto
termination
  by (relation "measure (\<lambda>(K, room_boundary, nr_of_recursive). nat (4 - nr_of_recursive))") auto

text \<open>
  \<open>remove_imperfections_from_boundary\<close>: the loop of at most \<open>max_iterations\<close> passes,
  which returns as soon as a pass leaves the number of curves unchanged.
\<close>

fun remove_imperfections_from_boundary ::
  "kernel \<Rightarrow> Curve list \<Rightarrow> nat \<Rightarrow> exn + Curve list" where
  "remove_imperfections_from_boundary K room_boundary 0 = Inr room_boundary"
| "remove_imperfections_from_boundary K room_boundary (Suc max_iterations) =
     (case remove_single_imperfection_from_boundary K room_boundary 0 of
        Inl e \<Rightarrow> Inl e
      | Inr new_room_boundary \<Rightarrow>
          if length new_room_boundary = length room_boundary then Inr new_room_boundary
          else remove_imperfections_from_boundary K new_room_boundary max_iterations)"

text \<open>
  Whether the first intersection a scan of the loop finds involves the first curve: the
  case in which the function moves the first curve to the end instead of repairing.
\<close>

definition first_hit_at_start :: "kernel \<Rightarrow> Curve list \<Rightarrow> bool" where
  "first_hit_at_start K room_boundary =
     (case first_intersection K room_boundary of
        None \<Rightarrow> False
      | Some (current_index, intersect_index, intersection_point) \<Rightarrow> current_index = 0)"

text \<open>
  Whether the loop of \<open>remove_imperfections_from_boundary\<close> returns from inside, on a
  pass that left the number of curves unchanged, rather than after the last of its
  \<open>max_iterations\<close> passes.
\<close>

fun returns_from_loop :: "kernel \<Rightarrow> Curve list \<Rightarrow> nat \<Rightarrow> bool" where
  "returns_from_loop K room_boundary 0 = False"
| "returns_from_loop K room_boundary (Suc max_iterations) =
     (case remove_single_imperfection_from_boundary K room_boundary 0 of
        Inl e \<Rightarrow> False
      | Inr new_room_boundary \<Rightarrow>
          if length new_room_boundary = length room_boundary then True
          else returns_from_loop K new_room_boundary max_iterations)"

section \<open>Expanding the boundary of a shaft\<close>

text \<open>
  The solid side of the host: \<open>CreateExtrusionGeometry loop height\<close> is
  \<open>GeometryCreationUtilities.CreateExtrusionGeometry([loop], XYZ(0, 0, 1), height)\<close>,
  \<open>None\<close> when it raises, and \<open>Volume\<close> reads the volume of a solid.
\<close>

record 'solid extruder =
  CreateExtrusionGeometry :: "Curve list \<Rightarrow> real \<Rightarrow> 'solid option"
  Volume :: "'solid \<Rightarrow> real"

text \<open>Step 0 of \<open>expand_boundary\<close> of \<open>CMRP_Shafts.py\<close>: the two vectors of a curve.\<close>

definition normal_vector :: "real \<Rightarrow> Curve \<Rightarrow> XYZ" where
  "normal_vector offset_distance curve =
     xyz_mul (CrossProduct (Normalize (xyz_sub (EndPoint0 curve) (EndPoint1 curve))) BasisZ)
       offset_distance"

definition reverse_vector :: "real \<Rightarrow> Curve \<Rightarrow> XYZ" where
  "reverse_vector offset_distance curve =
     xyz_mul (CrossProduct (Normalize (xyz_sub (EndPoint1 curve) (EndPoint0 curve))) BasisZ)
       offset_distance"

text \<open>
  The body of each \<open>try\<close>: the loop over the curves with its running \<open>index\<close>, which
  appends one offset line per curve.  Python's \<open>%\<close> with a positive modulus is never
  negative, as \<open>mod\<close> on \<open>int\<close>.  Any exception inside the \<open>try\<close> leaves the solid
  \<open>None\<close>.
\<close>

definition offset_startpoint :: "XYZ list \<Rightarrow> Curve \<Rightarrow> nat \<Rightarrow> XYZ" where
  "offset_startpoint vectors curve index =
     xyz_add (xyz_add (EndPoint0 curve) (vectors ! index))
       (vectors ! nat ((int index - 1) mod int (length vectors)))"

definition offset_endpoint :: "XYZ list \<Rightarrow> Curve \<Rightarrow> nat \<Rightarrow> XYZ" where
  "offset_endpoint vectors curve index =
     xyz_add (xyz_add (EndPoint1 curve) (vectors ! index))
       (vectors ! nat ((int index + 1) mod int (length vectors)))"

fun expanded_curve_loop ::
  "kernel \<Rightarrow> XYZ list \<Rightarrow> Curve list \<Rightarrow> nat \<Rightarrow> Curve list \<Rightarrow> Curve list option" where
  "expanded_curve_loop K vectors [] index loop = Some loop"
| "expanded_curve_loop K vectors (curve # rest) index loop =
     (case CreateBound K (offset_startpoint vectors curve index)
             (offset_endpoint vectors curve index) of
        None \<Rightarrow> None
      | Some line \<Rightarrow>
          (case Append K loop line of
             None \<Rightarrow> None
           | Some loop' \<Rightarrow> expanded_curve_loop K vectors rest (index + 1) loop'))"

definition expanded_solid ::
  "kernel \<Rightarrow> 'solid extruder \<Rightarrow> XYZ list \<Rightarrow> Curve list \<Rightarrow> real \<Rightarrow> 'solid option" where
  "expanded_solid K E vectors curve_loop shaft_height =
     (case expanded_curve_loop K vectors curve_loop 0 [] of
        None \<Rightarrow> None
      | Some loop \<Rightarrow> CreateExtrusionGeometry E loop shaft_height)"

definition expand_boundary ::
  "kernel \<Rightarrow> 'solid extruder \<Rightarrow> Curve list \<Rightarrow> real \<Rightarrow> real \<Rightarrow> 'solid option" where
  "expand_boundary K E curve_loop offset_distance shaft_height =
     (let vectors = map (normal_vector offset_distance) curve_loop;
          reverse_vectors = map (reverse_vector offset_distance) curve_loop;
          expanded = expanded_solid K E vectors curve_loop shaft_height;
          reverse_expanded = expanded_solid K E reverse_vectors curve_loop shaft_height
      in case expanded of
           None \<Rightarrow> reverse_expanded
         | Some solid \<Rightarrow>
             (case reverse_expanded of
                None \<Rightarrow> Some solid
              | Some reverse_solid \<Rightarrow>
                  if Volume E solid > Volume E reverse_solid then Some solid
                  else Some reverse_solid))"

text \<open>
  The offset in the words of the specification: the new loop has one line per curve, and
  each end of a line is the end of its curve moved by the sum of the normals of the two
  curves that meet there, the curve itself and its neighbour in the loop (the last curve
  is the neighbour before the first).
\<close>

definition offset_by_adjacent_normals :: "(Curve \<Rightarrow> XYZ) \<Rightarrow> Curve list \<Rightarrow> Curve list \<Rightarrow> bool" where
  "offset_by_adjacent_normals normal curve_loop loop =
     (length loop = length curve_loop
      \<and> list_all
          (\<lambda>i. EndPoint0 (loop ! i)
                 = xyz_add (xyz_add (EndPoint0 (curve_loop ! i)) (normal (curve_loop ! i)))
                     (normal (curve_loop ! (if i = 0 then length curve_loop - 1 else i - 1)))
               \<and> EndPoint1 (loop ! i)
                 = xyz_add (xyz_add (EndPoint1 (curve_loop ! i)) (normal (curve_loop ! i)))
                     (normal (curve_loop ! (if i + 1 = length curve_loop then 0 else i + 1))))
          [0 ..< length curve_loop])"

section \<open>Settings and the entry point of the daylight script\<close>

text \<open>The class \<open>Settings\<close> of \<open>CMRPSettings.py\<close>; a field may hold \<open>None\<close>.\<close>

record Settings =
  project_name :: "string option"
  project_address :: "string option"
  architect_name :: "string option"
  model_levels_grids :: "string option"
  model_rooms_windows :: "string option"
  model_shafts :: "string option"
  param_window_height :: "string option"
  param_window_width :: "string option"
  selected_window_families :: "(string \<times> string list) list option"
  mapping_file :: "string option"

text \<open>
  \<open>check_necessary_settings\<close> of \<open>CMRP_Daylight.py\<close>, test by test as the source writes
  them.
\<close>

definition check_necessary_settings :: "Settings \<Rightarrow> exn + unit" where
  "check_necessary_settings settings =
     (if model_levels_grids settings = None \<or> model_levels_grids settings = Some ''''
      then Inl (MissingSettingsError
                  ''31_Daylight: The model for Levels & Grids is missing in the settings.'')
      else if model_rooms_windows settings = None \<or> model_rooms_windows settings = Some ''''
      then Inl (MissingSettingsError
                  ''31_Daylight: The model for Rooms & Windows is missing in the settings.'')
      else if param_window_height settings = None \<or> param_window_height settings = Some ''''
      then Inl (MissingSettingsError
                  ''31_Daylight: The parameter for the height of windows is missing in the settings.'')
      else if param_window_width settings = None \<or> param_window_height settings = Some ''''
      then Inl (MissingSettingsError
                  ''31_Daylight: The parameter for the height of windows is missing in the settings.'')
      else (case selected_window_families settings of
              None \<Rightarrow>
                Inl (MissingSettingsError
                  ''31_Daylight: No window families or type were selected, check in the settings.'')
            | Some families \<Rightarrow>
                if length (map fst families) = 0
                then Inl (MissingSettingsError
                  ''31_Daylight: No window families or type were selected, check in the settings.'')
                else Inr ()))"

text \<open>
  What \<open>run_daylight_script\<close> does to the document and the log, in order.  The steps
  after \<open>delete_area_plans\<close> (reading the linked documents, creating the area plans and
  the filled regions) are the host's; \<open>steps settings\<close> gives the effects they perform
  and the exception they end with, if any.  The handler of the function catches the two
  configuration errors and logs them; any other exception leaves the function.
\<close>

datatype effect =
    Delete_area_plans
  | Create_area_plans
  | Create_filled_region
  | Log_success
  | Log_critical string

definition run_daylight_script ::
  "(Settings \<Rightarrow> effect list \<times> exn option) \<Rightarrow> Settings \<Rightarrow> effect list \<times> exn option" where
  "run_daylight_script steps settings =
     (let (effects, raised) =
            (case check_necessary_settings settings of
               Inl e \<Rightarrow> ([], Some e)
             | Inr _ \<Rightarrow>
                 (case steps settings of
                    (performed, Some e) \<Rightarrow> (Delete_area_plans # performed, Some e)
                  | (performed, None) \<Rightarrow>
                      (Delete_area_plans # performed @ [Log_success], None)))
      in case raised of
           Some (MissingSettingsError message) \<Rightarrow> (effects @ [Log_critical message], None)
         | Some (MissingTemplateError message) \<Rightarrow> (effects @ [Log_critical message], None)
         | _ \<Rightarrow> (effects, raised))"

section \<open>An exact planar kernel for concrete inputs\<close>

text \<open>
  To run the functions on concrete geometry, this section gives one instance of the
  kernel: straight lines between two points, with exact arithmetic.  A line from \<open>p\<close>
  to \<open>q\<close> has the parameters \<open>0\<close> and its length; equal end points are refused.  Two
  lines of one horizontal plane overlap when they are not parallel and the point where
  their carriers cross lies on both, end points included.  A loop accepts a line that starts
  where its last line ends.  The display unit is the millimetre, the internal unit the
  foot.
\<close>

definition planar_line :: "XYZ \<Rightarrow> XYZ \<Rightarrow> Curve" where
  "planar_line p q =
     \<lparr>EndPoint0 = p, EndPoint1 = q, EndParameter0 = 0,
      EndParameter1 = GetLength (xyz_sub q p), Length = GetLength (xyz_sub q p),
      IsBound = True\<rparr>"

definition planar_CreateBound :: "XYZ \<Rightarrow> XYZ \<Rightarrow> Curve option" where
  "planar_CreateBound p q = (if p = q then None else Some (planar_line p q))"

definition planar_Intersect :: "Curve \<Rightarrow> Curve \<Rightarrow> XYZ option" where
  "planar_Intersect a b =
     (let p = EndPoint0 a; r = xyz_sub (EndPoint1 a) p;
          q = EndPoint0 b; s = xyz_sub (EndPoint1 b) q;
          d = X r * Y s - Y r * X s
      in if d = 0 then None
         else if Z r = 0 \<and> Z s = 0 \<and> Z p = Z q
         then (let t = ((X q - X p) * Y s - (Y q - Y p) * X s) / d;
                   u = ((X q - X p) * Y r - (Y q - Y p) * X r) / d
               in if 0 \<le> t \<and> t \<le> 1 \<and> 0 \<le> u \<and> u \<le> 1
                  then Some (XYZ (X p + t * X r) (Y p + t * Y r) (Z p))
                  else None)
         else None)"

definition planar_Append :: "Curve list \<Rightarrow> Curve \<Rightarrow> Curve list option" where
  "planar_Append loop c =
     (if loop = [] \<or> EndPoint1 (last loop) = EndPoint0 c then Some (loop @ [c]) else None)"

definition planar_kernel :: kernel where
  "planar_kernel =
     \<lparr>CreateBound = planar_CreateBound, Intersect = planar_Intersect,
      Append = planar_Append, units_to_internal = (\<lambda>mm. mm * 10 / 3048)\<rparr>"

text \<open>
  A matching instance of the solid side: a loop of at least three lines that encloses an
  area is extruded to a positive height, and the volume is area times height.
\<close>

definition shoelace_area :: "Curve list \<Rightarrow> real" where
  "shoelace_area loop =
     \<bar>\<Sum>c\<leftarrow>loop. X (EndPoint0 c) * Y (EndPoint1 c) - X (EndPoint1 c) * Y (EndPoint0 c)\<bar> / 2"

definition prism_extruder :: "(Curve list \<times> real) extruder" where
  "prism_extruder =
     \<lparr>CreateExtrusionGeometry =
        (\<lambda>loop height.
           if 3 \<le> length loop \<and> 0 < height \<and> 0 < shoelace_area loop then Some (loop, height)
           else None),
      Volume = (\<lambda>(loop, height). shoelace_area loop * height)\<rparr>"

text \<open>The line between two points of the plane \<open>z = 0\<close>.\<close>

definition seg :: "real \<Rightarrow> real \<Rightarrow> real \<Rightarrow> real \<Rightarrow> Curve" where
  "seg x0 y0 x1 y1 = planar_line (XYZ x0 y0 0) (XYZ x1 y1 0)"

section \<open>Concrete inputs\<close>

text \<open>
  A room outline of 4 by 3 and the outline of a column inside it, as the host may hand
  them over: bound lines whose end parameters differ by their length.
\<close>

definition bound_curve :: "real \<Rightarrow> real \<Rightarrow> real \<Rightarrow> real \<Rightarrow> real \<Rightarrow> real \<Rightarrow> Curve" where
  "bound_curve x0 y0 x1 y1 t0 t1 =
     \<lparr>EndPoint0 = XYZ x0 y0 0, EndPoint1 = XYZ x1 y1 0, EndParameter0 = t0,
      EndParameter1 = t1, Length = t1 - t0, IsBound = True\<rparr>"

definition room_outline :: "BoundarySegment list" where
  "room_outline = map BoundarySegment
     [bound_curve 0 0 4 0 1 5, bound_curve 4 0 4 3 1 4,
      bound_curve 4 3 0 3 1 5, bound_curve 0 3 0 0 1 4]"

definition column_outline :: "BoundarySegment list" where
  "column_outline = map BoundarySegment
     [bound_curve 1 1 2 1 1 2, bound_curve 2 1 2 2 1 2,
      bound_curve 2 2 1 2 1 2, bound_curve 1 2 1 1 1 2]"

text \<open>A window whose height parameter, found on its type, is zero.\<close>

definition window_of_height_zero :: window where
  "window_of_height_zero =
     \<lparr>Location_Point = XYZ 0 0 1, FacingOrientation = XYZ 0 1 0,
      LookupParameter = (\<lambda>name. if name = ''Width'' then Some 2 else None),
      Symbol_LookupParameter = (\<lambda>name. if name = ''Height'' then Some 0 else None)\<rparr>"

text \<open>
  A window at the origin that faces north, and the two lines of 1000 mm shot from it.
\<close>

definition window_at_origin :: window where
  "window_at_origin =
     \<lparr>Location_Point = XYZ 0 0 0, FacingOrientation = XYZ 0 1 0,
      LookupParameter = (\<lambda>name. None), Symbol_LookupParameter = (\<lambda>name. None)\<rparr>"

definition facing_line_at_origin :: Curve where
  "facing_line_at_origin = seg 0 0 0 (1250 / 381)"

definition reverse_line_at_origin :: Curve where
  "reverse_line_at_origin = seg 0 0 0 (- (1250 / 381))"

text \<open>A line that stands upright on the plane: flattened, its two ends fall together.\<close>

definition upright_line :: Curve where
  "upright_line = planar_line (XYZ 5 5 0) (XYZ 5 5 3)"

text \<open>Settings that are complete but for an empty name of the width parameter.\<close>

definition settings_without_width :: Settings where
  "settings_without_width =
     \<lparr>project_name = Some ''Project'', project_address = None, architect_name = None,
      model_levels_grids = Some ''Levels.rvt'', model_rooms_windows = Some ''Rooms.rvt'',
      model_shafts = None, param_window_height = Some ''Height'',
      param_window_width = Some '''',
      selected_window_families = Some [(''Window'', [''Type 1''])],
      mapping_file = None\<rparr>"

text \<open>A loop of four lines whose first and third line cross at \<open>(1, 1)\<close>.\<close>

definition crossed_loop :: "Curve list" where
  "crossed_loop = [seg 0 0 2 2, seg 2 2 2 0, seg 2 0 0 2, seg 0 2 0 0]"

text \<open>The same loop after one repair: the inner triangle.\<close>

definition crossed_loop_repaired :: "Curve list" where
  "crossed_loop_repaired = [seg 0 2 0 0, seg 0 0 1 1, seg 1 1 0 2]"

text \<open>
  A loop of 26 lines that crosses itself eleven times: a path that goes up in eleven
  horizontal strokes between \<open>x = -1\<close> and \<open>x = 1\<close>, at the heights \<open>0\<close> to \<open>10\<close>,
  and comes back down along the line \<open>x = 0\<close>, which crosses every stroke.
  \<open>comb_after k\<close> is the loop with the lowest \<open>k\<close> strokes cut away.
\<close>

definition comb_teeth :: "Curve list" where
  "comb_teeth =
     [seg (- 1) 0 1 0, seg 1 0 1 1, seg 1 1 (- 1) 1, seg (- 1) 1 (- 1) 2, seg (- 1) 2 1 2,
      seg 1 2 1 3, seg 1 3 (- 1) 3, seg (- 1) 3 (- 1) 4, seg (- 1) 4 1 4, seg 1 4 1 5,
      seg 1 5 (- 1) 5, seg (- 1) 5 (- 1) 6, seg (- 1) 6 1 6, seg 1 6 1 7, seg 1 7 (- 1) 7,
      seg (- 1) 7 (- 1) 8, seg (- 1) 8 1 8, seg 1 8 1 9, seg 1 9 (- 1) 9,
      seg (- 1) 9 (- 1) 10, seg (- 1) 10 1 10, seg 1 10 1 11, seg 1 11 0 11]"

definition comb_loop :: "Curve list" where
  "comb_loop = seg (- 1) (- 1) (- 1) 0 # comb_teeth @ [seg 0 11 0 (- 1), seg 0 (- 1) (- 1) (- 1)]"

definition comb_after :: "nat \<Rightarrow> Curve list" where
  "comb_after k =
     drop (2 * k - 1) comb_teeth
       @ [seg 0 11 0 (real k - 1), seg 0 (real k - 1) (if odd k then 1 else - 1) (real k - 1)]"

text \<open>
  The outline of a shaft, a square of side 2, with the two loops at the distance
  \<open>1 / 2\<close> from it.
\<close>

definition square_loop :: "Curve list" where
  "square_loop = [seg 0 0 2 0, seg 2 0 2 2, seg 2 2 0 2, seg 0 2 0 0]"

definition inner_square :: "Curve list" where
  "inner_square =
     [seg (1 / 2) (1 / 2) (3 / 2) (1 / 2), seg (3 / 2) (1 / 2) (3 / 2) (3 / 2),
      seg (3 / 2) (3 / 2) (1 / 2) (3 / 2), seg (1 / 2) (3 / 2) (1 / 2) (1 / 2)]"

definition outer_square :: "Curve list" where
  "outer_square =
     [seg (- (1 / 2)) (- (1 / 2)) (5 / 2) (- (1 / 2)), seg (5 / 2) (- (1 / 2)) (5 / 2) (5 / 2),
      seg (5 / 2) (5 / 2) (- (1 / 2)) (5 / 2), seg (- (1 / 2)) (5 / 2) (- (1 / 2)) (- (1 / 2))]"

text \<open>
  A window of height 1 and width 2 at the elevation 1, with a given facing orientation,
  and the zones of such a window that lie to the north and to the south of the origin.
\<close>

definition window_facing :: "XYZ \<Rightarrow> window" where
  "window_facing orientation =
     \<lparr>Location_Point = XYZ 0 0 1, FacingOrientation = orientation,
      LookupParameter = (\<lambda>name. if name = ''Height'' then Some 1 else None),
      Symbol_LookupParameter = (\<lambda>name. if name = ''Width'' then Some 2 else None)\<rparr>"





section \<open>Properties of loop selection\<close>

text \<open>
  With \<open>largest_area\<close> never assigned, the loop compares every area with \<open>0.0\<close>: it
  ends with the last loop of positive area, whatever the areas of the loops before it.
\<close>

lemma largest_curveloop_loop_last_positive:
  "largest_curveloop_loop loops result 0
   = (case filter (\<lambda>temp. calculate_surface_area_of_boundary temp > 0)
             (map (map GetCurve) loops) of
        [] \<Rightarrow> result
      | temp # temps \<Rightarrow> Some (last (temp # temps)))"
proof (induction loops arbitrary: result)
  case Nil
  then show ?case by simp
next
  case (Cons segments loops)
  then show ?case
    by (simp add: Let_def split: list.splits)
qed

lemma single_loop_unchanged:
  "get_largest_curveloop_from_room_boundary [segments] = Some (map GetCurve segments)"
  by (simp add: get_largest_curveloop_from_room_boundary_def)

text \<open>
  Claim C1: for a room boundary of more than one loop, loop selection returns the loop of
  the greatest computed surface area.  The code does not: on the room outline (computed
  area 32) followed by the column outline (computed area 4) it returns the column
  outline, the last loop of positive area.
\<close>

theorem largest_curveloop_returns_smaller_loop:
  "calculate_surface_area_of_boundary (map GetCurve room_outline) = 32
   \<and> calculate_surface_area_of_boundary (map GetCurve column_outline) = 4
   \<and> get_largest_curveloop_from_room_boundary [room_outline, column_outline]
       = Some (map GetCurve column_outline)"
  by (simp add: get_largest_curveloop_from_room_boundary_def
      calculate_surface_area_of_boundary_def room_outline_def column_outline_def bound_curve_def)

section \<open>Properties of the window size\<close>

text \<open>
  Claim C8: for every window whose height or width parameter resolves to zero, zone
  construction returns \<open>None\<close>: no zone is produced, and no degenerate polygon.
\<close>

theorem zero_size_window_has_no_zone:
  assumes "lookup_size_parameter w height_name = Some 0
             \<or> lookup_size_parameter w width_name = Some 0"
  shows "calculate_full_daylight_zone K w facing negative_zero intersection_point
           height_name width_name = Inr None"
proof -
  have "get_size_from_window w height_name width_name = (None, None)"
    using assms by (auto simp: get_size_from_window_def split: option.splits)
  then show ?thesis
    by (simp add: calculate_full_daylight_zone_def)
qed

theorem zero_size_window_has_no_zone_witness:
  "lookup_size_parameter window_of_height_zero ''Height'' = Some 0
   \<and> calculate_full_daylight_zone planar_kernel window_of_height_zero (XYZ 0 1 0) False
         (XYZ 0 0 0) ''Height'' ''Width'' = Inr None"
proof -
  have h: "lookup_size_parameter window_of_height_zero ''Height'' = Some 0"
    by (simp add: lookup_size_parameter_def window_of_height_zero_def)
  from zero_size_window_has_no_zone
         [of window_of_height_zero "''Height''" "''Width''", OF disjI1, OF h]
  show ?thesis using h by simp
qed

section \<open>Properties of the orientation\<close>

text \<open>Evaluation on the planar kernel.\<close>

lemmas planar_eval =
  planar_kernel_def planar_CreateBound_def planar_Intersect_def planar_Append_def
  planar_line_def seg_def set_z_coordinate_of_line_def xyz_sub_def xyz_add_def xyz_mul_def
  xyz_neg_def Let_def

lemma shoot_facing_at_origin:
  "shoot_line planar_kernel (Location_Point window_at_origin)
     (FacingOrientation window_at_origin) = Some facing_line_at_origin"
  by (simp add: shoot_line_def window_at_origin_def facing_line_at_origin_def planar_eval)

lemma shoot_reverse_at_origin:
  "shoot_line planar_kernel (Location_Point window_at_origin)
     (xyz_neg (FacingOrientation window_at_origin)) = Some reverse_line_at_origin"
  by (simp add: shoot_line_def window_at_origin_def reverse_line_at_origin_def planar_eval)

text \<open>
  Once both test lines are built, the function is its loop over the boundary; curves that
  flatten and meet neither line are passed over.
\<close>

lemma get_correct_facing_orientation_loop:
  assumes "shoot_line K (Location_Point w) (FacingOrientation w) = Some facing_line"
      and "shoot_line K (Location_Point w) (xyz_neg (FacingOrientation w)) = Some reverse_line"
  shows "get_correct_facing_orientation K w room_boundary
         = orientation_loop K room_boundary facing_line reverse_line
             (FacingOrientation w) (xyz_neg (FacingOrientation w))"
  using assms by (simp add: get_correct_facing_orientation_def Let_def)

lemma orientation_loop_skip:
  assumes "\<forall>c\<in>set before. set_z_coordinate_of_line K c 0 \<noteq> None
             \<and> \<not> ray_hits K rl c \<and> \<not> ray_hits K fl c"
  shows "orientation_loop K (before @ rest) fl rl f r = orientation_loop K rest fl rl f r"
  using assms
  by (induction before) (auto simp: ray_hits_def split: option.splits)

lemma orientation_loop_direction_needs_hit:
  assumes "\<forall>c\<in>set room_boundary. \<not> ray_hits K rl c \<and> \<not> ray_hits K fl c"
  shows "orientation_loop K room_boundary fl rl f r \<noteq> Inr (Some d, p)"
  using assms
  by (induction room_boundary) (auto simp: ray_hits_def split: option.splits)

text \<open>
  Claim C9, as the code has it: when the host builds both test lines and neither of them
  meets any segment of the boundary, the function never returns a direction, and it
  returns the sentinel \<open>(None, None)\<close> when the host flattens every segment of the
  boundary.
\<close>

theorem no_intersection_gives_sentinel:
  assumes fl: "shoot_line K (Location_Point w) (FacingOrientation w) = Some facing_line"
      and rl: "shoot_line K (Location_Point w) (xyz_neg (FacingOrientation w)) = Some reverse_line"
      and miss: "\<forall>c\<in>set room_boundary.
                   \<not> ray_hits K reverse_line c \<and> \<not> ray_hits K facing_line c"
  shows "get_correct_facing_orientation K w room_boundary \<noteq> Inr (Some d, p)
         \<and> ((\<forall>c\<in>set room_boundary. set_z_coordinate_of_line K c 0 \<noteq> None)
              \<longrightarrow> get_correct_facing_orientation K w room_boundary = Inr (None, None))"
proof -
  note run = get_correct_facing_orientation_loop [OF fl rl]
  have never: "get_correct_facing_orientation K w room_boundary \<noteq> Inr (Some d, p)"
    unfolding run using miss by (rule orientation_loop_direction_needs_hit)
  have "get_correct_facing_orientation K w room_boundary = Inr (None, None)"
    if flat: "\<forall>c\<in>set room_boundary. set_z_coordinate_of_line K c 0 \<noteq> None"
  proof -
    have "orientation_loop K (room_boundary @ []) facing_line reverse_line
            (FacingOrientation w) (xyz_neg (FacingOrientation w))
          = orientation_loop K [] facing_line reverse_line
            (FacingOrientation w) (xyz_neg (FacingOrientation w))"
      using miss flat by (intro orientation_loop_skip) simp
    then show ?thesis by (simp add: run)
  qed
  with never show ?thesis by blast
qed

theorem no_intersection_gives_sentinel_witness:
  "get_correct_facing_orientation planar_kernel window_at_origin
     [seg 5 5 7 5, seg 7 5 7 7, seg 7 7 5 5] = Inr (None, None)"
proof -
  let ?rb = "[seg 5 5 7 5, seg 7 5 7 7, seg 7 7 5 5]"
  have miss: "\<forall>c\<in>set ?rb. \<not> ray_hits planar_kernel reverse_line_at_origin c
                \<and> \<not> ray_hits planar_kernel facing_line_at_origin c"
    by (simp add: ray_hits_def reverse_line_at_origin_def facing_line_at_origin_def planar_eval)
  have flat: "\<forall>c\<in>set ?rb. set_z_coordinate_of_line planar_kernel c 0 \<noteq> None"
    by (simp add: planar_eval)
  from no_intersection_gives_sentinel
         [OF shoot_facing_at_origin shoot_reverse_at_origin miss] flat
  show ?thesis by blast
qed

text \<open>
  The claim as the specification words it, for every anchor, facing vector and boundary,
  fails where the host refuses a line: a boundary segment that stands upright meets
  neither test line, and flattening it raises; so does flattening the test line of a
  window that faces straight up.  Nothing in the function catches the exception.
\<close>

theorem unflattened_segment_raises_instead_of_sentinel:
  "shoot_line planar_kernel (Location_Point window_at_origin)
     (FacingOrientation window_at_origin) = Some facing_line_at_origin
   \<and> shoot_line planar_kernel (Location_Point window_at_origin)
       (xyz_neg (FacingOrientation window_at_origin)) = Some reverse_line_at_origin
   \<and> Intersect planar_kernel upright_line reverse_line_at_origin = None
   \<and> Intersect planar_kernel upright_line facing_line_at_origin = None
   \<and> \<not> ray_hits planar_kernel reverse_line_at_origin upright_line
   \<and> \<not> ray_hits planar_kernel facing_line_at_origin upright_line
   \<and> get_correct_facing_orientation planar_kernel window_at_origin [upright_line]
       = Inl ArgumentsInconsistentException
   \<and> get_correct_facing_orientation planar_kernel (window_facing (XYZ 0 0 1)) [seg 5 5 7 5]
       = Inl ArgumentsInconsistentException"
proof -
  have flat: "set_z_coordinate_of_line planar_kernel upright_line 0 = None"
    by (simp add: upright_line_def planar_eval)
  have miss: "Intersect planar_kernel upright_line reverse_line_at_origin = None"
    "Intersect planar_kernel upright_line facing_line_at_origin = None"
    by (simp_all add: upright_line_def reverse_line_at_origin_def facing_line_at_origin_def
        planar_eval)
  have raised: "get_correct_facing_orientation planar_kernel window_at_origin [upright_line]
       = Inl ArgumentsInconsistentException"
    by (simp add: get_correct_facing_orientation_loop
          [OF shoot_facing_at_origin shoot_reverse_at_origin] flat)
  have up: "get_correct_facing_orientation planar_kernel (window_facing (XYZ 0 0 1))
              [seg 5 5 7 5] = Inl ArgumentsInconsistentException"
    by (simp add: get_correct_facing_orientation_def shoot_line_def window_facing_def planar_eval)
  from flat miss raised up shoot_facing_at_origin shoot_reverse_at_origin show ?thesis
    by (simp add: ray_hits_def)
qed




section \<open>Properties of the entry point\<close>

text \<open>
  A configuration error found by the check stops the script before anything is deleted:
  the only effect is the critical log entry.
\<close>

lemma missing_settings_stop_before_delete:
  assumes "check_necessary_settings settings = Inl e"
  shows "\<exists>message. e = MissingSettingsError message
           \<and> run_daylight_script steps settings = ([Log_critical message], None)"
  using assms
  by (auto simp: check_necessary_settings_def run_daylight_script_def
           split: if_splits option.splits)

text \<open>
  Claim C3: an empty required field raises \<open>MissingSettingsError\<close> before any destructive
  step.  For the name of the width parameter the code does not: its fourth test repeats
  the emptiness test of the height parameter, so settings with an empty width parameter
  pass the check, and the script goes on to delete the area plans.
\<close>

theorem empty_width_parameter_passes_check:
  "param_window_width settings_without_width = Some ''''
   \<and> check_necessary_settings settings_without_width = Inr ()
   \<and> take 1 (fst (run_daylight_script steps settings_without_width)) = [Delete_area_plans]"
proof -
  have c: "check_necessary_settings settings_without_width = Inr ()"
    by (simp add: check_necessary_settings_def settings_without_width_def)
  have "take 1 (fst (run_daylight_script steps settings_without_width)) = [Delete_area_plans]"
    by (cases "steps settings_without_width")
       (auto simp: run_daylight_script_def c split: option.splits exn.splits)
  then show ?thesis using c by (simp add: settings_without_width_def)
qed

section \<open>Properties of the boundary repair\<close>

declare remove_single_imperfection_from_boundary.simps [simp del]

subsection \<open>Rotations\<close>

text \<open>
  Moving the first curve to the end is one step of the list rotation \<open>rotate\<close>.  A call
  ends, after some number \<open>k\<close> of such steps, with one scan of the rotated loop and the
  repair at the pair that scan finds; every scan before found its first intersection on
  the first curve.
\<close>

lemma move_first_to_end_Cons: "move_first_to_end (curve # rest) = rest @ [curve]"
  by (simp add: move_first_to_end_def)

lemma move_first_to_end_rotate1: "move_first_to_end rb = rotate1 rb"
  by (cases rb) (simp_all add: move_first_to_end_def)

lemma remove_single_rotations:
  "\<exists>k. int k \<le> max 0 (4 - nr)
       \<and> (\<forall>i<k. first_hit_at_start K (rotate i rb))
       \<and> (int k < 4 - nr \<longrightarrow> \<not> first_hit_at_start K (rotate k rb))
       \<and> remove_single_imperfection_from_boundary K rb nr
           = (case first_intersection K (rotate k rb) of
                None \<Rightarrow> Inr (rotate k rb)
              | Some (ci, ii, p) \<Rightarrow> repair_at_intersection K (rotate k rb) ci ii p)"
proof (induction K rb nr rule: remove_single_imperfection_from_boundary.induct)
  case (1 K rb nr)
  show ?case
  proof (cases "first_intersection K rb")
    case None
    then have "int 0 \<le> max 0 (4 - nr)
       \<and> (\<forall>i<0. first_hit_at_start K (rotate i rb))
       \<and> (int 0 < 4 - nr \<longrightarrow> \<not> first_hit_at_start K (rotate 0 rb))
       \<and> remove_single_imperfection_from_boundary K rb nr
           = (case first_intersection K (rotate 0 rb) of
                None \<Rightarrow> Inr (rotate 0 rb)
              | Some (ci, ii, p) \<Rightarrow> repair_at_intersection K (rotate 0 rb) ci ii p)"
      by (simp add: remove_single_imperfection_from_boundary.simps [of K rb nr]
          first_hit_at_start_def)
    then show ?thesis by (rule exI)
  next
    case (Some found)
    obtain ci ii p where found: "found = (ci, ii, p)" by (cases found)
    show ?thesis
    proof (cases "ci = 0 \<and> nr < 4")
      case True
      from "1.IH" [OF Some found [symmetric] refl True]
      obtain k where k: "int k \<le> max 0 (4 - (nr + 1))"
        and hits: "\<forall>i<k. first_hit_at_start K (rotate i (move_first_to_end rb))"
        and last: "int k < 4 - (nr + 1)
                     \<longrightarrow> \<not> first_hit_at_start K (rotate k (move_first_to_end rb))"
        and run: "remove_single_imperfection_from_boundary K (move_first_to_end rb) (nr + 1)
           = (case first_intersection K (rotate k (move_first_to_end rb)) of
                None \<Rightarrow> Inr (rotate k (move_first_to_end rb))
              | Some (ci, ii, p) \<Rightarrow>
                  repair_at_intersection K (rotate k (move_first_to_end rb)) ci ii p)"
        by blast
      have shift: "rotate i (move_first_to_end rb) = rotate (Suc i) rb" for i
        by (simp add: move_first_to_end_rotate1 rotate1_rotate_swap)
      have here: "first_hit_at_start K (rotate 0 rb)"
        using Some found True by (simp add: first_hit_at_start_def)
      have "first_hit_at_start K (rotate i rb)" if "i < Suc k" for i
      proof (cases i)
        case 0
        with here show ?thesis by simp
      next
        case (Suc i')
        with that hits have "first_hit_at_start K (rotate i' (move_first_to_end rb))" by simp
        with Suc show ?thesis by (simp only: shift)
      qed
      moreover from k True have "int (Suc k) \<le> max 0 (4 - nr)" by simp
      moreover from last have "int (Suc k) < 4 - nr
                     \<longrightarrow> \<not> first_hit_at_start K (rotate (Suc k) rb)"
        by (simp only: shift) simp
      moreover from run Some found True
      have "remove_single_imperfection_from_boundary K rb nr
           = (case first_intersection K (rotate (Suc k) rb) of
                None \<Rightarrow> Inr (rotate (Suc k) rb)
              | Some (ci, ii, p) \<Rightarrow> repair_at_intersection K (rotate (Suc k) rb) ci ii p)"
        by (simp only: shift)
           (simp add: remove_single_imperfection_from_boundary.simps [of K rb nr])
      ultimately show ?thesis by blast
    next
      case False
      with Some found have "int 0 \<le> max 0 (4 - nr)
       \<and> (\<forall>i<0. first_hit_at_start K (rotate i rb))
       \<and> (int 0 < 4 - nr \<longrightarrow> \<not> first_hit_at_start K (rotate 0 rb))
       \<and> remove_single_imperfection_from_boundary K rb nr
           = (case first_intersection K (rotate 0 rb) of
                None \<Rightarrow> Inr (rotate 0 rb)
              | Some (ci, ii, p) \<Rightarrow> repair_at_intersection K (rotate 0 rb) ci ii p)"
        by (auto simp add: remove_single_imperfection_from_boundary.simps [of K rb nr]
            first_hit_at_start_def)
      then show ?thesis by (rule exI)
    qed
  qed
qed

text \<open>Evaluation of the crossed loop: one rotation, then the repair.\<close>

lemma crossed_loop_first_intersection:
  "first_intersection planar_kernel crossed_loop = Some (0, 2, XYZ 1 1 0)"
  by (simp add: first_intersection_def crossed_loop_def upt_rec planar_eval)

lemma crossed_loop_rotated_first_intersection:
  "first_intersection planar_kernel (move_first_to_end crossed_loop) = Some (1, 3, XYZ 1 1 0)"
  by (simp add: first_intersection_def crossed_loop_def move_first_to_end_def upt_rec planar_eval)

lemma crossed_loop_rotated_repair:
  "repair_at_intersection planar_kernel (move_first_to_end crossed_loop) 1 3 (XYZ 1 1 0)
   = Inr crossed_loop_repaired"
  by (simp add: crossed_loop_def crossed_loop_repaired_def move_first_to_end_def
      repair_at_intersection_def calculate_surface_area_of_boundary_def planar_eval)

lemma crossed_loop_pass:
  "remove_single_imperfection_from_boundary planar_kernel crossed_loop 0
   = Inr crossed_loop_repaired"
  by (subst remove_single_imperfection_from_boundary.simps,
      simp add: crossed_loop_first_intersection del: One_nat_def,
      subst remove_single_imperfection_from_boundary.simps,
      simp add: crossed_loop_rotated_first_intersection crossed_loop_rotated_repair
           del: One_nat_def)

lemma crossed_loop_repaired_simple:
  "first_intersection planar_kernel crossed_loop_repaired = None"
  by (simp add: first_intersection_def crossed_loop_repaired_def upt_rec planar_eval)

lemma crossed_loop_repaired_pass:
  "remove_single_imperfection_from_boundary planar_kernel crossed_loop_repaired 0
   = Inr crossed_loop_repaired"
  by (subst remove_single_imperfection_from_boundary.simps)
     (simp add: crossed_loop_repaired_simple)

lemma crossed_loop_lengths:
  "length crossed_loop = 4" "length crossed_loop_repaired = 3"
  by (simp_all add: crossed_loop_def crossed_loop_repaired_def)

lemma crossed_loop_repair:
  "remove_imperfections_from_boundary planar_kernel crossed_loop (Suc (Suc n))
   = Inr crossed_loop_repaired"
  "returns_from_loop planar_kernel crossed_loop (Suc (Suc n))"
  by (simp_all add: crossed_loop_pass crossed_loop_repaired_pass crossed_loop_lengths)

lemma crossed_loop_rotated_pass:
  "remove_single_imperfection_from_boundary planar_kernel
     [seg 2 2 2 0, seg 2 0 0 2, seg 0 2 0 0, seg 0 0 2 2] 1 = Inr crossed_loop_repaired"
proof -
  have rotated: "move_first_to_end crossed_loop
                 = [seg 2 2 2 0, seg 2 0 0 2, seg 0 2 0 0, seg 0 0 2 2]"
    by (simp add: move_first_to_end_def crossed_loop_def)
  note hit = crossed_loop_rotated_first_intersection [unfolded rotated]
  note repair = crossed_loop_rotated_repair [unfolded rotated]
  show ?thesis
    by (subst remove_single_imperfection_from_boundary.simps)
       (simp add: hit repair del: One_nat_def)
qed

text \<open>
  Claim C7: whenever the first intersection found involves the first curve and fewer than
  four rotations were made, the loop is rotated, its first curve moved to the end, and
  the scan starts again on the rotated loop instead of a repair in place.  A call makes
  at most four rotations: for some \<open>k \<le> 4\<close>, each of the first \<open>k\<close> scans finds its
  first intersection on the first curve of the loop rotated so far, and the call returns
  what one more scan, of the loop rotated \<open>k\<close> times, gives: that loop if nothing
  intersects, the repair at the pair found otherwise (a pair on the first curve only
  after the fourth rotation).
\<close>

theorem rotation_moves_first_curve_at_most_four_times:
  "(first_intersection K (curve # rest) = Some (0, j, p) \<and> nr < 4
      \<longrightarrow> remove_single_imperfection_from_boundary K (curve # rest) nr
          = remove_single_imperfection_from_boundary K (rest @ [curve]) (nr + 1))
   \<and> (\<exists>k\<le>4. (\<forall>i<k. first_hit_at_start K (rotate i rb))
          \<and> (k < 4 \<longrightarrow> \<not> first_hit_at_start K (rotate k rb))
          \<and> remove_single_imperfection_from_boundary K rb 0
              = (case first_intersection K (rotate k rb) of
                   None \<Rightarrow> Inr (rotate k rb)
                 | Some (ci, ii, p) \<Rightarrow> repair_at_intersection K (rotate k rb) ci ii p))"
proof -
  have "first_intersection K (curve # rest) = Some (0, j, p) \<and> nr < 4
      \<longrightarrow> remove_single_imperfection_from_boundary K (curve # rest) nr
          = remove_single_imperfection_from_boundary K (rest @ [curve]) (nr + 1)"
    by (simp add: remove_single_imperfection_from_boundary.simps [of K "curve # rest" nr]
        move_first_to_end_Cons)
  moreover from remove_single_rotations [of 0 K rb]
  obtain k where "int k \<le> max 0 (4 - 0)"
    and "\<forall>i<k. first_hit_at_start K (rotate i rb)"
    and "int k < 4 - 0 \<longrightarrow> \<not> first_hit_at_start K (rotate k rb)"
    and "remove_single_imperfection_from_boundary K rb 0
           = (case first_intersection K (rotate k rb) of
                None \<Rightarrow> Inr (rotate k rb)
              | Some (ci, ii, p) \<Rightarrow> repair_at_intersection K (rotate k rb) ci ii p)"
    by blast
  then have "\<exists>k\<le>4. (\<forall>i<k. first_hit_at_start K (rotate i rb))
          \<and> (k < 4 \<longrightarrow> \<not> first_hit_at_start K (rotate k rb))
          \<and> remove_single_imperfection_from_boundary K rb 0
              = (case first_intersection K (rotate k rb) of
                   None \<Rightarrow> Inr (rotate k rb)
                 | Some (ci, ii, p) \<Rightarrow> repair_at_intersection K (rotate k rb) ci ii p)"
    by (intro exI [of _ k]) simp
  ultimately show ?thesis by blast
qed

theorem rotation_moves_first_curve_at_most_four_times_witness:
  "first_intersection planar_kernel [seg 0 0 2 2, seg 2 2 2 0, seg 2 0 0 2, seg 0 2 0 0]
     = Some (0, 2, XYZ 1 1 0)
   \<and> remove_single_imperfection_from_boundary planar_kernel
        [seg 0 0 2 2, seg 2 2 2 0, seg 2 0 0 2, seg 0 2 0 0] 0
      = remove_single_imperfection_from_boundary planar_kernel
        [seg 2 2 2 0, seg 2 0 0 2, seg 0 2 0 0, seg 0 0 2 2] 1
   \<and> remove_single_imperfection_from_boundary planar_kernel
        [seg 2 2 2 0, seg 2 0 0 2, seg 0 2 0 0, seg 0 0 2 2] 1 = Inr crossed_loop_repaired"
proof -
  have hit: "first_intersection planar_kernel
               [seg 0 0 2 2, seg 2 2 2 0, seg 2 0 0 2, seg 0 2 0 0] = Some (0, 2, XYZ 1 1 0)"
    using crossed_loop_first_intersection by (simp add: crossed_loop_def)
  from rotation_moves_first_curve_at_most_four_times
         [of planar_kernel "seg 0 0 2 2" "[seg 2 2 2 0, seg 2 0 0 2, seg 0 2 0 0]" 2
            "XYZ 1 1 0" 0]
       hit
  have "remove_single_imperfection_from_boundary planar_kernel
        [seg 0 0 2 2, seg 2 2 2 0, seg 2 0 0 2, seg 0 2 0 0] 0
      = remove_single_imperfection_from_boundary planar_kernel
        [seg 2 2 2 0, seg 2 0 0 2, seg 0 2 0 0, seg 0 0 2 2] 1"
    by simp
  with hit crossed_loop_rotated_pass show ?thesis by simp
qed

subsection \<open>Passes shorten the loop\<close>

lemma scan_intersect_index_found:
  assumes "scan_intersect_index K rb ci js = Some (ii, p)"
  shows "ii \<in> set js \<and> (ci = 0 \<and> ii = length rb - 1) = False"
  using assms
  by (induction js) (auto split: if_splits option.splits)

lemma scan_current_index_found:
  assumes "scan_current_index K rb indexes = Some (ci, ii, p)"
  shows "ci + 2 \<le> ii \<and> ii < length rb \<and> (ci = 0 \<and> ii = length rb - 1) = False"
  using assms
proof (induction indexes)
  case Nil
  then show ?case by simp
next
  case (Cons c indexes)
  show ?case
  proof (cases "scan_intersect_index K rb c [c + 2 ..< length rb]")
    case None
    with Cons show ?thesis by simp
  next
    case (Some found)
    obtain j q where found: "found = (j, q)" by (cases found)
    with Some Cons.prems have eq: "c = ci" "j = ii" "q = p" by simp_all
    from scan_intersect_index_found [of K rb c "[c + 2 ..< length rb]" j q] Some found eq
    show ?thesis by auto
  qed
qed

lemma first_intersection_found:
  assumes "first_intersection K rb = Some (ci, ii, p)"
  shows "ci + 2 \<le> ii \<and> ii < length rb \<and> (ci = 0 \<and> ii = length rb - 1) = False"
  using assms unfolding first_intersection_def by (rule scan_current_index_found)

lemma repair_at_intersection_shorter:
  assumes "repair_at_intersection K rb ci ii p = Inr r"
      and "ci + 2 \<le> ii" and "ii < length rb" and "(ci = 0 \<and> ii = length rb - 1) = False"
  shows "length r < length rb"
  using assms
  by (auto simp: repair_at_intersection_def Let_def split: option.splits if_splits)

lemma remove_single_length:
  assumes "remove_single_imperfection_from_boundary K rb nr = Inr r"
  shows "length r \<le> length rb \<and> (length r = length rb \<longrightarrow> first_intersection K r = None)"
  using assms
proof (induction K rb nr rule: remove_single_imperfection_from_boundary.induct)
  case (1 K rb nr)
  show ?case
  proof (cases "first_intersection K rb")
    case None
    with 1 show ?thesis
      by (simp add: remove_single_imperfection_from_boundary.simps [of K rb nr])
  next
    case (Some found)
    obtain ci ii p where found: "found = (ci, ii, p)" by (cases found)
    show ?thesis
    proof (cases "ci = 0 \<and> nr < 4")
      case True
      with "1.prems" Some found
      have "remove_single_imperfection_from_boundary K (move_first_to_end rb) (nr + 1) = Inr r"
        by (simp add: remove_single_imperfection_from_boundary.simps [of K rb nr])
      with "1.IH" Some found True
      have "length r \<le> length (move_first_to_end rb)
            \<and> (length r = length (move_first_to_end rb) \<longrightarrow> first_intersection K r = None)"
        by simp
      moreover have "length (move_first_to_end rb) = length rb"
        by (simp add: move_first_to_end_def)
      ultimately show ?thesis by simp
    next
      case False
      with "1.prems" Some found
      have "repair_at_intersection K rb ci ii p = Inr r"
        by (auto simp add: remove_single_imperfection_from_boundary.simps [of K rb nr])
      with first_intersection_found [of K rb ci ii p] Some found
      have "length r < length rb"
        by (intro repair_at_intersection_shorter [of K rb ci ii p r]) simp_all
      then show ?thesis by simp
    qed
  qed
qed

lemma simple_boundary_unchanged:
  assumes "first_intersection K rb = None"
  shows "remove_single_imperfection_from_boundary K rb nr = Inr rb"
    and "remove_imperfections_from_boundary K rb (Suc n) = Inr rb"
  using assms
  by (simp_all add: remove_single_imperfection_from_boundary.simps [of K rb])

text \<open>
  Claim C5, as the code has it: when the repair returns from inside its loop, because a
  pass left the number of curves unchanged, the loop it returns has no intersection left,
  and a second repair returns it as it is (the same curves, hence the same count and
  area).
\<close>

theorem repair_idempotent_when_loop_returns:
  assumes "remove_imperfections_from_boundary K rb n = Inr r"
      and "returns_from_loop K rb n"
  shows "first_intersection K r = None
         \<and> remove_imperfections_from_boundary K r (Suc m) = Inr r"
  using assms
proof (induction n arbitrary: rb)
  case 0
  then show ?case by simp
next
  case (Suc n)
  from Suc.prems obtain new where new: "remove_single_imperfection_from_boundary K rb 0 = Inr new"
    by (cases "remove_single_imperfection_from_boundary K rb 0") simp_all
  show ?case
  proof (cases "length new = length rb")
    case True
    with Suc.prems new have "r = new" by simp
    with remove_single_length [OF new] True have "first_intersection K r = None" by simp
    with simple_boundary_unchanged(2) show ?thesis by simp
  next
    case False
    with Suc.prems new have "remove_imperfections_from_boundary K new n = Inr r"
      and "returns_from_loop K new n" by simp_all
    then show ?thesis by (rule Suc.IH)
  qed
qed

theorem repair_idempotent_when_loop_returns_witness:
  "remove_imperfections_from_boundary planar_kernel crossed_loop 10 = Inr crossed_loop_repaired
   \<and> returns_from_loop planar_kernel crossed_loop 10
   \<and> first_intersection planar_kernel crossed_loop_repaired = None
   \<and> remove_imperfections_from_boundary planar_kernel crossed_loop_repaired 10
       = Inr crossed_loop_repaired"
proof -
  have ten: "(10::nat) = Suc (Suc 8)" "(10::nat) = Suc 9"
    by simp_all
  have a: "remove_imperfections_from_boundary planar_kernel crossed_loop 10
             = Inr crossed_loop_repaired"
    and b: "returns_from_loop planar_kernel crossed_loop 10"
    unfolding ten(1) by (rule crossed_loop_repair)+
  from repair_idempotent_when_loop_returns [OF a b, of 9] a b show ?thesis
    by (simp only: ten(2) [symmetric])
qed

subsection \<open>A repair cut short by the cap of ten passes\<close>

text \<open>Evaluation of the comb: each pass cuts one stroke away.\<close>

lemma comb_loop_first_intersection:
  "first_intersection planar_kernel comb_loop = Some (1, 24, XYZ 0 0 0)"
  by (simp add: comb_loop_def comb_teeth_def first_intersection_def upt_rec planar_eval)

lemma comb_loop_repair:
  "repair_at_intersection planar_kernel comb_loop 1 24 (XYZ 0 0 0) = Inr (comb_after 1)"
  by (simp add: comb_loop_def comb_after_def comb_teeth_def
      repair_at_intersection_def calculate_surface_area_of_boundary_def planar_eval)

lemma comb_loop_pass:
  "remove_single_imperfection_from_boundary planar_kernel comb_loop 0 = Inr (comb_after 1)"
  by (subst remove_single_imperfection_from_boundary.simps)
     (simp add: comb_loop_first_intersection comb_loop_repair del: One_nat_def)

lemma comb_after_first_intersection:
    "first_intersection planar_kernel (comb_after 1) = Some (1, 22, XYZ 0 1 0)"
    "first_intersection planar_kernel (comb_after 2) = Some (1, 20, XYZ 0 2 0)"
    "first_intersection planar_kernel (comb_after 3) = Some (1, 18, XYZ 0 3 0)"
    "first_intersection planar_kernel (comb_after 4) = Some (1, 16, XYZ 0 4 0)"
    "first_intersection planar_kernel (comb_after 5) = Some (1, 14, XYZ 0 5 0)"
    "first_intersection planar_kernel (comb_after 6) = Some (1, 12, XYZ 0 6 0)"
    "first_intersection planar_kernel (comb_after 7) = Some (1, 10, XYZ 0 7 0)"
    "first_intersection planar_kernel (comb_after 8) = Some (1, 8, XYZ 0 8 0)"
    "first_intersection planar_kernel (comb_after 9) = Some (1, 6, XYZ 0 9 0)"
    "first_intersection planar_kernel (comb_after 10) = Some (1, 4, XYZ 0 10 0)"
  by (simp_all add: comb_after_def comb_teeth_def first_intersection_def upt_rec planar_eval)

lemma comb_after_repair:
    "repair_at_intersection planar_kernel (comb_after 1) 1 22 (XYZ 0 1 0) = Inr (comb_after 2)"
    "repair_at_intersection planar_kernel (comb_after 2) 1 20 (XYZ 0 2 0) = Inr (comb_after 3)"
    "repair_at_intersection planar_kernel (comb_after 3) 1 18 (XYZ 0 3 0) = Inr (comb_after 4)"
    "repair_at_intersection planar_kernel (comb_after 4) 1 16 (XYZ 0 4 0) = Inr (comb_after 5)"
    "repair_at_intersection planar_kernel (comb_after 5) 1 14 (XYZ 0 5 0) = Inr (comb_after 6)"
    "repair_at_intersection planar_kernel (comb_after 6) 1 12 (XYZ 0 6 0) = Inr (comb_after 7)"
    "repair_at_intersection planar_kernel (comb_after 7) 1 10 (XYZ 0 7 0) = Inr (comb_after 8)"
    "repair_at_intersection planar_kernel (comb_after 8) 1 8 (XYZ 0 8 0) = Inr (comb_after 9)"
    "repair_at_intersection planar_kernel (comb_after 9) 1 6 (XYZ 0 9 0) = Inr (comb_after 10)"
    "repair_at_intersection planar_kernel (comb_after 10) 1 4 (XYZ 0 10 0) = Inr (comb_after 11)"
  by (simp_all add: comb_after_def comb_teeth_def
      repair_at_intersection_def calculate_surface_area_of_boundary_def planar_eval)

lemma comb_after_pass:
    "remove_single_imperfection_from_boundary planar_kernel (comb_after 1) 0 = Inr (comb_after 2)"
    "remove_single_imperfection_from_boundary planar_kernel (comb_after 2) 0 = Inr (comb_after 3)"
    "remove_single_imperfection_from_boundary planar_kernel (comb_after 3) 0 = Inr (comb_after 4)"
    "remove_single_imperfection_from_boundary planar_kernel (comb_after 4) 0 = Inr (comb_after 5)"
    "remove_single_imperfection_from_boundary planar_kernel (comb_after 5) 0 = Inr (comb_after 6)"
    "remove_single_imperfection_from_boundary planar_kernel (comb_after 6) 0 = Inr (comb_after 7)"
    "remove_single_imperfection_from_boundary planar_kernel (comb_after 7) 0 = Inr (comb_after 8)"
    "remove_single_imperfection_from_boundary planar_kernel (comb_after 8) 0 = Inr (comb_after 9)"
    "remove_single_imperfection_from_boundary planar_kernel (comb_after 9) 0 = Inr (comb_after 10)"
    "remove_single_imperfection_from_boundary planar_kernel (comb_after 10) 0 = Inr (comb_after 11)"
  by (subst remove_single_imperfection_from_boundary.simps,
      simp add: comb_after_first_intersection comb_after_repair del: One_nat_def)+

lemma comb_after_11_simple: "first_intersection planar_kernel (comb_after 11) = None"
  by (simp add: comb_after_def comb_teeth_def first_intersection_def upt_rec planar_eval)

lemma comb_after_11_pass:
  "remove_single_imperfection_from_boundary planar_kernel (comb_after 11) 0 = Inr (comb_after 11)"
  by (subst remove_single_imperfection_from_boundary.simps) (simp add: comb_after_11_simple)

lemma comb_lengths:
  "length comb_loop = 26"
    "length (comb_after 1) = 24"
    "length (comb_after 2) = 22"
    "length (comb_after 3) = 20"
    "length (comb_after 4) = 18"
    "length (comb_after 5) = 16"
    "length (comb_after 6) = 14"
    "length (comb_after 7) = 12"
    "length (comb_after 8) = 10"
    "length (comb_after 9) = 8"
    "length (comb_after 10) = 6"
    "length (comb_after 11) = 4"
  by (simp_all add: comb_loop_def comb_after_def comb_teeth_def)

lemma comb_loop_step:
  "remove_imperfections_from_boundary planar_kernel comb_loop (Suc n)
   = remove_imperfections_from_boundary planar_kernel (comb_after 1) n"
  by (simp add: comb_loop_pass comb_lengths del: One_nat_def)

lemma comb_after_step:
    "remove_imperfections_from_boundary planar_kernel (comb_after 1) (Suc n) = remove_imperfections_from_boundary planar_kernel (comb_after 2) n"
    "remove_imperfections_from_boundary planar_kernel (comb_after 2) (Suc n) = remove_imperfections_from_boundary planar_kernel (comb_after 3) n"
    "remove_imperfections_from_boundary planar_kernel (comb_after 3) (Suc n) = remove_imperfections_from_boundary planar_kernel (comb_after 4) n"
    "remove_imperfections_from_boundary planar_kernel (comb_after 4) (Suc n) = remove_imperfections_from_boundary planar_kernel (comb_after 5) n"
    "remove_imperfections_from_boundary planar_kernel (comb_after 5) (Suc n) = remove_imperfections_from_boundary planar_kernel (comb_after 6) n"
    "remove_imperfections_from_boundary planar_kernel (comb_after 6) (Suc n) = remove_imperfections_from_boundary planar_kernel (comb_after 7) n"
    "remove_imperfections_from_boundary planar_kernel (comb_after 7) (Suc n) = remove_imperfections_from_boundary planar_kernel (comb_after 8) n"
    "remove_imperfections_from_boundary planar_kernel (comb_after 8) (Suc n) = remove_imperfections_from_boundary planar_kernel (comb_after 9) n"
    "remove_imperfections_from_boundary planar_kernel (comb_after 9) (Suc n) = remove_imperfections_from_boundary planar_kernel (comb_after 10) n"
    "remove_imperfections_from_boundary planar_kernel (comb_after 10) (Suc n) = remove_imperfections_from_boundary planar_kernel (comb_after 11) n"
  by (simp_all add: comb_after_pass comb_lengths del: One_nat_def)

lemma ten: "(10::nat) = Suc (Suc (Suc (Suc (Suc (Suc (Suc (Suc (Suc (Suc 0)))))))))"
  by simp

text \<open>
  The claim as the specification words it, for every boundary, fails when the cap cuts
  the repair short.  The comb needs eleven passes: the repair stops after ten, with six
  curves and one intersection left, and a repair of that result returns four curves.
\<close>

theorem repair_cut_short_is_not_idempotent:
  "remove_imperfections_from_boundary planar_kernel comb_loop 10 = Inr (comb_after 10)
   \<and> remove_imperfections_from_boundary planar_kernel (comb_after 10) 10 = Inr (comb_after 11)
   \<and> length (comb_after 10) = 6 \<and> length (comb_after 11) = 4"
proof -
  have "remove_imperfections_from_boundary planar_kernel comb_loop
          (Suc (Suc (Suc (Suc (Suc (Suc (Suc (Suc (Suc (Suc 0))))))))))
        = Inr (comb_after 10)"
    by (simp only: comb_loop_step comb_after_step remove_imperfections_from_boundary.simps(1))
  moreover have "remove_imperfections_from_boundary planar_kernel comb_loop 10
        = remove_imperfections_from_boundary planar_kernel comb_loop
            (Suc (Suc (Suc (Suc (Suc (Suc (Suc (Suc (Suc (Suc 0))))))))))"
    by (simp only: ten [symmetric])
  ultimately have first:
    "remove_imperfections_from_boundary planar_kernel comb_loop 10 = Inr (comb_after 10)"
    by simp
  have "remove_imperfections_from_boundary planar_kernel (comb_after 10) (Suc (Suc n))
        = Inr (comb_after 11)" for n
    by (simp only: comb_after_step) (simp add: comb_after_11_pass)
  from this [of 8] have second:
    "remove_imperfections_from_boundary planar_kernel (comb_after 10) 10 = Inr (comb_after 11)"
    by simp
  from first second show ?thesis by (simp add: comb_lengths)
qed

section \<open>Properties of the shaft expansion\<close>

text \<open>The index before and after \<open>index\<close>, as the source computes them with \<open>%\<close>.\<close>

lemma previous_index:
  assumes "i < n"
  shows "nat ((int i - 1) mod int n) = (if i = 0 then n - 1 else i - 1)"
  using assms by (auto simp: zmod_minus1 nat_diff_distrib')

lemma next_index:
  assumes "i < n"
  shows "nat ((int i + 1) mod int n) = (if i + 1 = n then 0 else i + 1)"
proof (cases "i + 1 = n")
  case True
  then have "int i + 1 = int n" by simp
  with True show ?thesis by simp
next
  case False
  with assms have "int i + 1 < int n" by simp
  then have "(int i + 1) mod int n = int i + 1" by simp
  with False show ?thesis by (simp add: nat_add_distrib)
qed

lemma expanded_curve_loop_lines:
  assumes cb: "\<And>p q l. CreateBound K p q = Some l \<Longrightarrow> EndPoint0 l = p \<and> EndPoint1 l = q"
      and ap: "\<And>l c l'. Append K l c = Some l' \<Longrightarrow> l' = l @ [c]"
      and built: "expanded_curve_loop K vectors curves index loop0 = Some loop"
  shows "length loop = length loop0 + length curves
         \<and> (\<forall>i<length curves.
               EndPoint0 (loop ! (length loop0 + i))
                 = offset_startpoint vectors (curves ! i) (index + i)
               \<and> EndPoint1 (loop ! (length loop0 + i))
                 = offset_endpoint vectors (curves ! i) (index + i))
         \<and> take (length loop0) loop = loop0"
  using built
proof (induction curves arbitrary: index loop0)
  case Nil
  then show ?case by simp
next
  case (Cons curve rest)
  from Cons.prems obtain line loop1
    where line: "CreateBound K (offset_startpoint vectors curve index)
                   (offset_endpoint vectors curve index) = Some line"
      and loop1: "Append K loop0 line = Some loop1"
      and rest: "expanded_curve_loop K vectors rest (index + 1) loop1 = Some loop"
    by (auto split: option.splits)
  from ap [OF loop1] have loop1_eq: "loop1 = loop0 @ [line]" .
  from cb [OF line] have ends: "EndPoint0 line = offset_startpoint vectors curve index"
    "EndPoint1 line = offset_endpoint vectors curve index" by simp_all
  from Cons.IH [OF rest] have
    len: "length loop = length loop1 + length rest"
    and pts: "\<forall>i<length rest.
               EndPoint0 (loop ! (length loop1 + i))
                 = offset_startpoint vectors (rest ! i) (index + 1 + i)
               \<and> EndPoint1 (loop ! (length loop1 + i))
                 = offset_endpoint vectors (rest ! i) (index + 1 + i)"
    and pre: "take (length loop1) loop = loop1"
    by simp_all
  note pre' = pre [unfolded loop1_eq]
  have "loop ! length loop0 = take (length (loop0 @ [line])) loop ! length loop0"
    by simp
  also have "\<dots> = (loop0 @ [line]) ! length loop0"
    by (simp only: pre')
  finally have at0: "loop ! length loop0 = line"
    by simp
  have "take (length loop0) loop = take (length loop0) (take (length (loop0 @ [line])) loop)"
    by (simp add: min_def)
  also have "\<dots> = take (length loop0) (loop0 @ [line])"
    by (simp only: pre')
  finally have pre0: "take (length loop0) loop = loop0"
    by simp
  have "EndPoint0 (loop ! (length loop0 + i))
                 = offset_startpoint vectors ((curve # rest) ! i) (index + i)
               \<and> EndPoint1 (loop ! (length loop0 + i))
                 = offset_endpoint vectors ((curve # rest) ! i) (index + i)"
    if "i < length (curve # rest)" for i
  proof (cases i)
    case 0
    then show ?thesis by (simp add: at0 ends)
  next
    case (Suc j)
    with that pts have "EndPoint0 (loop ! (length loop1 + j))
                 = offset_startpoint vectors (rest ! j) (index + 1 + j)
               \<and> EndPoint1 (loop ! (length loop1 + j))
                 = offset_endpoint vectors (rest ! j) (index + 1 + j)"
      by simp
    with Suc show ?thesis by (simp add: loop1_eq)
  qed
  with len pre0 show ?case by (simp add: loop1_eq)
qed

lemma expanded_curve_loop_offsets:
  assumes cb: "\<And>p q l. CreateBound K p q = Some l \<Longrightarrow> EndPoint0 l = p \<and> EndPoint1 l = q"
      and ap: "\<And>l c l'. Append K l c = Some l' \<Longrightarrow> l' = l @ [c]"
      and built: "expanded_curve_loop K (map normal curve_loop) curve_loop 0 [] = Some loop"
  shows "offset_by_adjacent_normals normal curve_loop loop"
proof -
  from expanded_curve_loop_lines [OF cb ap built]
  have len: "length loop = length curve_loop"
    and pts: "\<forall>i<length curve_loop.
               EndPoint0 (loop ! i) = offset_startpoint (map normal curve_loop) (curve_loop ! i) i
               \<and> EndPoint1 (loop ! i) = offset_endpoint (map normal curve_loop) (curve_loop ! i) i"
    by simp_all
  have "EndPoint0 (loop ! i)
                 = xyz_add (xyz_add (EndPoint0 (curve_loop ! i)) (normal (curve_loop ! i)))
                     (normal (curve_loop ! (if i = 0 then length curve_loop - 1 else i - 1)))
               \<and> EndPoint1 (loop ! i)
                 = xyz_add (xyz_add (EndPoint1 (curve_loop ! i)) (normal (curve_loop ! i)))
                     (normal (curve_loop ! (if i + 1 = length curve_loop then 0 else i + 1)))"
    if i: "i < length curve_loop" for i
  proof -
    from i have p: "(if i = 0 then length curve_loop - 1 else i - 1) < length curve_loop"
      and n: "(if i + 1 = length curve_loop then 0 else i + 1) < length curve_loop"
      by auto
    from pts i show ?thesis
      using nth_map [OF p, of normal] nth_map [OF n, of normal]
      by (simp add: offset_startpoint_def offset_endpoint_def previous_index [OF i]
          next_index [OF i])
  qed
  with len show ?thesis
    by (simp add: offset_by_adjacent_normals_def list_all_iff)
qed

text \<open>The planar kernel builds the line it is asked for, and appends at the end.\<close>

lemma planar_CreateBound_ends:
  assumes "CreateBound planar_kernel p q = Some l"
  shows "EndPoint0 l = p \<and> EndPoint1 l = q"
  using assms
  by (auto simp: planar_kernel_def planar_CreateBound_def planar_line_def split: if_splits)

lemma planar_Append_end:
  assumes "Append planar_kernel l c = Some l'"
  shows "l' = l @ [c]"
  using assms
  by (auto simp: planar_kernel_def planar_Append_def split: if_splits)

text \<open>
  Claim C4: for a host that builds the line it is asked for and appends at the end, each
  of the two candidate loops, once built, is the offset of the polygon by the sum of the
  adjacent normals (direction cross Z times distance; the mirrored candidate with the
  direction reversed), and its solid is the extrusion of that loop to the given height; a
  candidate that is not built has no solid.  The function returns the solid of the larger
  volume, and the other solid when exactly one candidate has none.
\<close>

theorem expand_boundary_offsets_both_ways_and_keeps_larger:
  assumes cb: "\<And>p q l. CreateBound K p q = Some l \<Longrightarrow> EndPoint0 l = p \<and> EndPoint1 l = q"
      and ap: "\<And>l c l'. Append K l c = Some l' \<Longrightarrow> l' = l @ [c]"
  shows "(case expanded_curve_loop K (map (normal_vector d) cl) cl 0 [] of
            None \<Rightarrow> expanded_solid K E (map (normal_vector d) cl) cl h = None
          | Some loop \<Rightarrow>
              offset_by_adjacent_normals (normal_vector d) cl loop
              \<and> expanded_solid K E (map (normal_vector d) cl) cl h
                  = CreateExtrusionGeometry E loop h)
         \<and> (case expanded_curve_loop K (map (reverse_vector d) cl) cl 0 [] of
            None \<Rightarrow> expanded_solid K E (map (reverse_vector d) cl) cl h = None
          | Some loop \<Rightarrow>
              offset_by_adjacent_normals (reverse_vector d) cl loop
              \<and> expanded_solid K E (map (reverse_vector d) cl) cl h
                  = CreateExtrusionGeometry E loop h)
         \<and> expand_boundary K E cl d h
             = (case (expanded_solid K E (map (normal_vector d) cl) cl h,
                      expanded_solid K E (map (reverse_vector d) cl) cl h) of
                  (Some solid, Some reverse_solid) \<Rightarrow>
                    Some (if Volume E solid > Volume E reverse_solid then solid
                          else reverse_solid)
                | (Some solid, None) \<Rightarrow> Some solid
                | (None, reverse_expanded) \<Rightarrow> reverse_expanded)"
proof -
  have candidate:
    "(case expanded_curve_loop K (map normal cl) cl 0 [] of
        None \<Rightarrow> expanded_solid K E (map normal cl) cl h = None
      | Some loop \<Rightarrow>
          offset_by_adjacent_normals normal cl loop
          \<and> expanded_solid K E (map normal cl) cl h = CreateExtrusionGeometry E loop h)"
    for normal
    using expanded_curve_loop_offsets [where K = K and normal = normal and curve_loop = cl, OF cb ap]
    by (simp add: expanded_solid_def split: option.splits)
  have choice: "expand_boundary K E cl d h
             = (case (expanded_solid K E (map (normal_vector d) cl) cl h,
                      expanded_solid K E (map (reverse_vector d) cl) cl h) of
                  (Some solid, Some reverse_solid) \<Rightarrow>
                    Some (if Volume E solid > Volume E reverse_solid then solid
                          else reverse_solid)
                | (Some solid, None) \<Rightarrow> Some solid
                | (None, reverse_expanded) \<Rightarrow> reverse_expanded)"
    by (simp add: expand_boundary_def Let_def split: option.splits)
  from candidate [of "normal_vector d"] candidate [of "reverse_vector d"] choice
  show ?thesis by blast
qed

text \<open>Evaluation on the square.\<close>

lemmas shaft_eval =
  normal_vector_def reverse_vector_def Normalize_def GetLength_def CrossProduct_def BasisZ_def
  offset_startpoint_def offset_endpoint_def

lemma square_loop_normal:
  "expanded_curve_loop planar_kernel (map (normal_vector (1 / 2)) square_loop) square_loop 0 []
   = Some inner_square"
  by (simp add: square_loop_def inner_square_def shaft_eval planar_eval)

lemma square_loop_reverse:
  "expanded_curve_loop planar_kernel (map (reverse_vector (1 / 2)) square_loop) square_loop 0 []
   = Some outer_square"
  by (simp add: square_loop_def outer_square_def shaft_eval planar_eval)

lemma square_areas: "shoelace_area inner_square = 1" "shoelace_area outer_square = 9"
  by (simp_all add: shoelace_area_def inner_square_def outer_square_def planar_eval)

theorem expand_boundary_offsets_both_ways_and_keeps_larger_witness:
  "offset_by_adjacent_normals (normal_vector (1 / 2)) square_loop inner_square
   \<and> offset_by_adjacent_normals (reverse_vector (1 / 2)) square_loop outer_square
   \<and> expanded_solid planar_kernel prism_extruder (map (normal_vector (1 / 2)) square_loop)
         square_loop 3 = Some (inner_square, 3)
   \<and> expanded_solid planar_kernel prism_extruder (map (reverse_vector (1 / 2)) square_loop)
         square_loop 3 = Some (outer_square, 3)
   \<and> expand_boundary planar_kernel prism_extruder square_loop (1 / 2) 3
       = Some (outer_square, 3)"
proof -
  have len: "length inner_square = 4" "length outer_square = 4"
    by (simp_all add: inner_square_def outer_square_def)
  from expand_boundary_offsets_both_ways_and_keeps_larger
         [where K = planar_kernel and d = "1 / 2" and cl = square_loop
            and E = prism_extruder and h = 3,
          OF planar_CreateBound_ends planar_Append_end]
  show ?thesis
    by (simp add: square_loop_normal square_loop_reverse prism_extruder_def square_areas len)
qed

text \<open>
  Claim C10: when both the normal and the mirrored candidate fail to build, the function
  returns \<open>None\<close>; it does not raise.
\<close>

theorem expand_boundary_none_when_both_fail:
  assumes "expanded_solid K E (map (normal_vector offset_distance) curve_loop) curve_loop
             shaft_height = None"
      and "expanded_solid K E (map (reverse_vector offset_distance) curve_loop) curve_loop
             shaft_height = None"
  shows "expand_boundary K E curve_loop offset_distance shaft_height = None"
  using assms by (simp add: expand_boundary_def)

theorem expand_boundary_none_when_both_fail_witness:
  "expand_boundary planar_kernel prism_extruder square_loop (1 / 2) 0 = None"
proof -
  have "expanded_solid planar_kernel prism_extruder vectors square_loop 0 = None" for vectors
    by (simp add: expanded_solid_def prism_extruder_def split: option.splits)
  then show ?thesis
    by (intro expand_boundary_none_when_both_fail) simp_all
qed

section \<open>Properties of the daylight zone\<close>











end
